theory Spec2Isabelle
  imports Main
begin

section \<open>JavaScript values used by the configuration and the runner\<close>

text \<open>
  The numbers that flow through \<^verbatim>\<open>config.ts\<close> and \<^verbatim>\<open>quickTrade.ts\<close> are the
  results of \<^verbatim>\<open>parseInt(_, 10)\<close>: an integer, or \<^verbatim>\<open>NaN\<close> when no digit was read.
  \<open>Num n\<close> stands for the Number with the integer value \<open>n\<close>. A Number is a
  double: it holds every integer of magnitude up to \<open>2 ^ 53\<close> exactly, and there
  \<open>Num n\<close> is the value the code computes. Beyond \<open>2 ^ 53\<close> the code rounds
  (\<^verbatim>\<open>parseInt("9007199254740993", 10)\<close> is \<open>9007199254740992\<close>) and digit strings of
  several hundred characters give \<^verbatim>\<open>Infinity\<close>, where \<open>Num\<close> keeps the exact integer;
  a statement about the integer that a text parses to is therefore made for magnitudes
  up to \<open>2 ^ 53\<close> only. The sign of zero is left out as well
  (\<^verbatim>\<open>parseInt("-0", 10)\<close> is \<^verbatim>\<open>-0\<close>, which \<^verbatim>\<open>Math.max\<close>, \<^verbatim>\<open>Math.min\<close> and the
  template strings of the runner treat as below \<open>1\<close> and print as \<^verbatim>\<open>0\<close>).
\<close>

datatype number = NaN | Num int

text \<open>\<^verbatim>\<open>Math.max(a, b)\<close> and \<^verbatim>\<open>Math.min(a, b)\<close>: \<^verbatim>\<open>NaN\<close> as soon as one argument is.\<close>

fun Math_max :: "number \<Rightarrow> number \<Rightarrow> number" where
  "Math_max NaN b = NaN"
| "Math_max a NaN = NaN"
| "Math_max (Num a) (Num b) = Num (max a b)"

fun Math_min :: "number \<Rightarrow> number \<Rightarrow> number" where
  "Math_min NaN b = NaN"
| "Math_min a NaN = NaN"
| "Math_min (Num a) (Num b) = Num (min a b)"

text \<open>
  The relational operators \<^verbatim>\<open><\<close> and \<^verbatim>\<open><=\<close> on Numbers: every comparison with
  \<^verbatim>\<open>NaN\<close> is false.
\<close>

fun num_less :: "number \<Rightarrow> number \<Rightarrow> bool" where
  "num_less (Num a) (Num b) = (a < b)"
| "num_less a b = False"

fun num_le :: "number \<Rightarrow> number \<Rightarrow> bool" where
  "num_le (Num a) (Num b) = (a \<le> b)"
| "num_le a b = False"

subsection \<open>Decimal digits\<close>

definition isDigit :: "char \<Rightarrow> bool" where
  "isDigit c = (48 \<le> (of_char c :: nat) \<and> (of_char c :: nat) \<le> 57)"

definition digitValue :: "char \<Rightarrow> nat" where
  "digitValue c = of_char c - 48"

definition digitChar :: "nat \<Rightarrow> char" where
  "digitChar d = (''0123456789'' ! d)"

text \<open>
  The white space that \<^verbatim>\<open>parseInt\<close> skips (StrWhiteSpaceChar of ECMAScript), as far as
  it is ASCII: TAB, LF, VT, FF, CR and SP. Strings are byte strings here; the white space
  beyond ASCII (U+00A0, U+FEFF and the category Zs) is not represented.
\<close>

definition isStrWhiteSpaceChar :: "char \<Rightarrow> bool" where
  "isStrWhiteSpaceChar c = ((of_char c :: nat) \<in> {9, 10, 11, 12, 13, 32})"

text \<open>The mathematical value of a string of decimal digits, most significant first.\<close>

definition digitsValue :: "string \<Rightarrow> nat" where
  "digitsValue Z = foldl (\<lambda>acc c. 10 * acc + digitValue c) 0 Z"

text \<open>
  \<^verbatim>\<open>parseInt(inputString, 10)\<close>, after ECMAScript: skip leading white space, read an
  optional sign, take the longest prefix of decimal digits of what remains (the radix is
  given as 10, so no \<^verbatim>\<open>0x\<close> prefix is stripped), and return \<^verbatim>\<open>NaN\<close> when that
  prefix is empty. Whatever follows the digits is ignored.
\<close>

definition parseInt10 :: "string \<Rightarrow> number" where
  "parseInt10 inputString =
     (let S = dropWhile isStrWhiteSpaceChar inputString;
          sign = (if S \<noteq> [] \<and> hd S = CHR ''-'' then - 1 else 1 :: int);
          S' = (if S \<noteq> [] \<and> (hd S = CHR ''+'' \<or> hd S = CHR ''-'') then tl S else S);
          Z = takeWhile isDigit S'
      in if Z = [] then NaN else Num (sign * int (digitsValue Z)))"

text \<open>
  Number to string, as the template strings of the runner do it: \<^verbatim>\<open>"NaN"\<close>, or the
  decimal digits with a leading \<^verbatim>\<open>-\<close> for a negative value. (JavaScript switches to
  exponent notation from \<open>10 ^ 21\<close> on; that only changes the text of a log line.)
\<close>

fun natToString :: "nat \<Rightarrow> string" where
  "natToString n =
     (if n < 10 then [digitChar n] else natToString (n div 10) @ [digitChar (n mod 10)])"

declare natToString.simps [simp del]

fun numberToString :: "number \<Rightarrow> string" where
  "numberToString NaN = ''NaN''"
| "numberToString (Num n) = (if n < 0 then CHR ''-'' # natToString (nat (- n)) else natToString (nat n))"

section \<open>The configuration loader (\<^verbatim>\<open>config.ts\<close>)\<close>

text \<open>
  \<^verbatim>\<open>process.env\<close>: every variable is a string or \<^verbatim>\<open>undefined\<close>.
\<close>

type_synonym env = "string \<rightharpoonup> string"

text \<open>\<^verbatim>\<open>a ?? b\<close> on a string that may be undefined; the empty string is not replaced.\<close>

definition nullish :: "string option \<Rightarrow> string \<Rightarrow> string" where
  "nullish a b = (case a of None \<Rightarrow> b | Some s \<Rightarrow> s)"

text \<open>
  \<^verbatim>\<open>BOT_SIDE\<close> is the variable cast to \<^verbatim>\<open>"yes" | "no"\<close>; a TypeScript cast does
  nothing at run time, so the value is a string.
\<close>

definition BOT_SIDE :: "env \<Rightarrow> string" where
  "BOT_SIDE env = nullish (env ''KALSHI_BOT_SIDE'') ''yes''"

definition BOT_PRICE_CENTS :: "env \<Rightarrow> number" where
  "BOT_PRICE_CENTS env = parseInt10 (nullish (env ''KALSHI_BOT_PRICE_CENTS'') ''50'')"

definition BOT_CONTRACTS :: "env \<Rightarrow> number" where
  "BOT_CONTRACTS env = parseInt10 (nullish (env ''KALSHI_BOT_CONTRACTS'') ''1'')"

definition BTC_SERIES_TICKER :: "string" where
  "BTC_SERIES_TICKER = ''KXBTC15M''"

definition BOT_MAX_MARKETS :: "env \<Rightarrow> number" where
  "BOT_MAX_MARKETS env = parseInt10 (nullish (env ''KALSHI_BOT_MAX_MARKETS'') ''1'')"

definition BOT_DRY_RUN :: "env \<Rightarrow> bool" where
  "BOT_DRY_RUN env = (env ''KALSHI_BOT_DRY_RUN'' = Some ''true'')"

section \<open>The collaborator module (\<^verbatim>\<open>bot.ts\<close>)\<close>

text \<open>
  Modelled from the spec: the module \<^verbatim>\<open>bot.ts\<close>, which declares the market record
  and the order result, is missing. The spec gives a market "at minimum a ticker
  identifier" (the only field the runner reads) and the order result as "a tagged result:
  either a success carrying an order identifier, or a failure carrying an error
  description". The runner tells the two apart with \<^verbatim>\<open>"error" in result\<close>.
\<close>

record market =
  ticker :: string

datatype order_result = OrderId string | OrderError string

text \<open>The execution options the runner passes: the object literal \<^verbatim>\<open>{ arbLive: true }\<close>.\<close>

record exec_options =
  arbLive :: bool

text \<open>What \<^verbatim>\<open>await\<close> on a collaborator's promise gives: its value, or a thrown error.\<close>

datatype 'a awaited = Resolves 'a | Rejects string

text \<open>
  Modelled from the spec: the collaborator contract of the three imported functions,
  \<^verbatim>\<open>getBitcoinUpDownMarkets()\<close>, \<^verbatim>\<open>placeOrder(ticker, side, count, priceCents, options)\<close>
  and \<^verbatim>\<open>placeSellOrder(ticker, side, count, options)\<close>. Their bodies are unknown, so a
  run is taken relative to what they answer: any answer at all, as a function of the
  arguments they are called with.
\<close>

record bot =
  getBitcoinUpDownMarkets :: "market list awaited"
  placeOrder :: "string \<Rightarrow> string \<Rightarrow> number \<Rightarrow> number \<Rightarrow> exec_options \<Rightarrow> order_result awaited"
  placeSellOrder :: "string \<Rightarrow> string \<Rightarrow> number \<Rightarrow> exec_options \<Rightarrow> order_result awaited"

section \<open>The quick-trade runner (\<^verbatim>\<open>quickTrade.ts\<close>)\<close>

text \<open>
  What a run does to the outside, in order: lines on the two console streams, the calls
  into the collaborator with their arguments, and the timer it waits for.
\<close>

datatype event =
    ConsoleLog string
  | ConsoleError string
  | CallGetMarkets
  | CallPlaceOrder string string number number exec_options
  | SetTimeout nat
  | CallPlaceSellOrder string string number exec_options

text \<open>
  How \<^verbatim>\<open>main\<close> stops: it returns, it calls \<^verbatim>\<open>process.exit(code)\<close> (which ends the
  process on the spot), or an awaited promise rejects and the error leaves \<^verbatim>\<open>main\<close>.
\<close>

datatype completion = Returned | Exited nat | Threw string

definition DELAY_MS :: nat where
  "DELAY_MS = 5000"

text \<open>\<^verbatim>\<open>console.log(a, b)\<close> with two strings prints them with a space between.\<close>

definition print2 :: "string \<Rightarrow> string \<Rightarrow> string" where
  "print2 a b = a @ '' '' @ b"

definition main :: "env \<Rightarrow> bot \<Rightarrow> event list \<times> completion" where
  "main env b =
    (let t0 = [ConsoleLog ''[Test Kalshi] Fetching open Bitcoin 15m up/down markets...'',
               CallGetMarkets]
     in case getBitcoinUpDownMarkets b of
          Rejects err \<Rightarrow> (t0, Threw err)
        | Resolves markets \<Rightarrow>
            (if length markets = 0 then
               (t0 @ [ConsoleError ''[Test Kalshi] No open Bitcoin up/down markets found.''],
                Exited 1)
             else
                 (let market = markets ! 0;
                      ticker = ticker market;
                      side = BOT_SIDE env;
                      count = Math_max (Num 1) (BOT_CONTRACTS env);
                      priceCents = Math_max (Num 1) (Math_min (Num 99) (BOT_PRICE_CENTS env));
                      t1 = t0 @
                        [ConsoleLog (''[Test Kalshi] Market: '' @ ticker),
                         ConsoleLog (''[Test Kalshi] Side: '' @ side @
                           '' (yes=up, no=down), count='' @ numberToString count @
                           '', price='' @ numberToString priceCents @ ''c''),
                         ConsoleLog ''[Test Kalshi] Placing BUY...'',
                         CallPlaceOrder ticker side count priceCents \<lparr>arbLive = True\<rparr>]
                  in case placeOrder b ticker side count priceCents \<lparr>arbLive = True\<rparr> of
                       Rejects err \<Rightarrow> (t1, Threw err)
                     | Resolves (OrderError error) \<Rightarrow>
                         (t1 @ [ConsoleError (print2 ''[Test Kalshi] Buy failed:'' error)],
                          Exited 1)
                     | Resolves (OrderId buyId) \<Rightarrow>
                         (let t2 = t1 @
                            [ConsoleLog (print2 ''[Test Kalshi] Buy placed:'' buyId),
                             ConsoleLog (''[Test Kalshi] Waiting '' @
                               natToString (DELAY_MS div 1000) @ ''s...''),
                             SetTimeout DELAY_MS,
                             ConsoleLog ''[Test Kalshi] Placing SELL to exit...'',
                             CallPlaceSellOrder ticker side count \<lparr>arbLive = True\<rparr>]
                          in case placeSellOrder b ticker side count \<lparr>arbLive = True\<rparr> of
                               Rejects err \<Rightarrow> (t2, Threw err)
                             | Resolves (OrderError error) \<Rightarrow>
                                 (t2 @ [ConsoleError
                                          (print2 ''[Test Kalshi] Sell failed:'' error)],
                                  Exited 1)
                             | Resolves (OrderId sellId) \<Rightarrow>
                                 (t2 @
                                  [ConsoleLog (print2 ''[Test Kalshi] Sell placed:'' sellId),
                                   ConsoleLog ''[Test Kalshi] Done.''],
                                  Returned)))))"

text \<open>
  The script itself: \<^verbatim>\<open>main().catch((err) => { console.error(err); process.exit(1); })\<close>.
  It gives the events of the run and the exit status of the process: the code passed to
  \<^verbatim>\<open>process.exit\<close>, or 0 when \<^verbatim>\<open>main\<close> returns and the process ends by itself.
\<close>

definition quickTrade :: "env \<Rightarrow> bot \<Rightarrow> event list \<times> nat" where
  "quickTrade env b =
     (case main env b of
        (t, Returned) \<Rightarrow> (t, 0)
      | (t, Exited code) \<Rightarrow> (t, code)
      | (t, Threw err) \<Rightarrow> (t @ [ConsoleError err], 1))"

definition events :: "env \<Rightarrow> bot \<Rightarrow> event list" where
  "events env b = fst (quickTrade env b)"

definition exitCode :: "env \<Rightarrow> bot \<Rightarrow> nat" where
  "exitCode env b = snd (quickTrade env b)"

subsection \<open>Reading a run\<close>

text \<open>The buy calls of a run, the sell calls, and the lines written to standard output.\<close>

fun buyCalls :: "event list \<Rightarrow> (string \<times> string \<times> number \<times> number \<times> exec_options) list" where
  "buyCalls [] = []"
| "buyCalls (CallPlaceOrder t s c p opts # es) = (t, s, c, p, opts) # buyCalls es"
| "buyCalls (e # es) = buyCalls es"

fun sellCalls :: "event list \<Rightarrow> (string \<times> string \<times> number \<times> exec_options) list" where
  "sellCalls [] = []"
| "sellCalls (CallPlaceSellOrder t s c opts # es) = (t, s, c, opts) # sellCalls es"
| "sellCalls (e # es) = sellCalls es"

fun logged :: "event list \<Rightarrow> string list" where
  "logged [] = []"
| "logged (ConsoleLog line # es) = line # logged es"
| "logged (e # es) = logged es"

text \<open>A run without its console lines: the calls and the timer, in order.\<close>

fun isConsole :: "event \<Rightarrow> bool" where
  "isConsole (ConsoleLog line) = True"
| "isConsole (ConsoleError line) = True"
| "isConsole e = False"

definition actions :: "event list \<Rightarrow> event list" where
  "actions es = filter (\<lambda>e. \<not> isConsole e) es"

text \<open>
  The count and the price \<^verbatim>\<open>main\<close> computes before it places the buy order, and the
  options object of both order calls, under short names for the statements below.
\<close>

abbreviation count_of :: "env \<Rightarrow> number" where
  "count_of env \<equiv> Math_max (Num 1) (BOT_CONTRACTS env)"

abbreviation priceCents_of :: "env \<Rightarrow> number" where
  "priceCents_of env \<equiv> Math_max (Num 1) (Math_min (Num 99) (BOT_PRICE_CENTS env))"

abbreviation live :: exec_options where
  "live \<equiv> \<lparr>arbLive = True\<rparr>"

text \<open>The events of a run up to the buy call, and from the buy's success to the sell call.\<close>

definition preamble :: "env \<Rightarrow> market \<Rightarrow> event list" where
  "preamble env m =
     [ConsoleLog ''[Test Kalshi] Fetching open Bitcoin 15m up/down markets...'',
      CallGetMarkets,
      ConsoleLog (''[Test Kalshi] Market: '' @ ticker m),
      ConsoleLog (''[Test Kalshi] Side: '' @ BOT_SIDE env @
         '' (yes=up, no=down), count='' @ numberToString (count_of env) @
         '', price='' @ numberToString (priceCents_of env) @ ''c''),
      ConsoleLog ''[Test Kalshi] Placing BUY...'',
      CallPlaceOrder (ticker m) (BOT_SIDE env) (count_of env) (priceCents_of env) live]"

definition interlude :: "env \<Rightarrow> market \<Rightarrow> string \<Rightarrow> event list" where
  "interlude env m buyId =
     [ConsoleLog (''[Test Kalshi] Buy placed: '' @ buyId),
      ConsoleLog ''[Test Kalshi] Waiting 5s...'',
      SetTimeout 5000,
      ConsoleLog ''[Test Kalshi] Placing SELL to exit...'',
      CallPlaceSellOrder (ticker m) (BOT_SIDE env) (count_of env) live]"

subsection \<open>Collaborators for concrete runs\<close>

text \<open>
  A collaborator that answers the same whatever it is asked: the markets it returns, the
  answer to the buy order and the answer to the sell order.
\<close>

definition answering :: "market list awaited \<Rightarrow> order_result awaited \<Rightarrow> order_result awaited \<Rightarrow> bot" where
  "answering markets buyAnswer sellAnswer =
     \<lparr>getBitcoinUpDownMarkets = markets,
      placeOrder = (\<lambda>ticker side count priceCents opts. buyAnswer),
      placeSellOrder = (\<lambda>ticker side count opts. sellAnswer)\<rparr>"

section \<open>Decimal strings and \<^verbatim>\<open>parseInt\<close>\<close>

lemma digitChar_digit:
  assumes "d < 10"
  shows "isDigit (digitChar d)" and "digitValue (digitChar d) = d"
proof -
  from assms have "d \<in> {0, 1, 2, 3, 4, 5, 6, 7, 8, 9}" by auto
  then show "isDigit (digitChar d)" and "digitValue (digitChar d) = d"
    by (auto simp: digitChar_def isDigit_def digitValue_def)
qed

lemma natToString_not_empty: "natToString n \<noteq> []"
  by (subst natToString.simps) simp

lemma natToString_digits: "c \<in> set (natToString n) \<Longrightarrow> isDigit c"
proof (induction n arbitrary: c rule: natToString.induct)
  case (1 n)
  show ?case
  proof (cases "n < 10")
    case True
    with "1.prems" show ?thesis
      by (simp add: natToString.simps [of n] digitChar_digit)
  next
    case False
    with "1.prems" "1.IH" show ?thesis
      by (auto simp: natToString.simps [of n] digitChar_digit)
  qed
qed

lemma digitsValue_snoc: "digitsValue (Z @ [c]) = 10 * digitsValue Z + digitValue c"
  by (simp add: digitsValue_def)

lemma digitsValue_natToString: "digitsValue (natToString n) = n"
proof (induction n rule: natToString.induct)
  case (1 n)
  show ?case
  proof (cases "n < 10")
    case True
    then show ?thesis
      by (simp add: natToString.simps [of n] digitsValue_def digitChar_digit)
  next
    case False
    with "1.IH" show ?thesis
      by (simp add: natToString.simps [of n] digitsValue_snoc digitChar_digit)
  qed
qed

lemma isDigit_plain:
  assumes "isDigit c"
  shows "\<not> isStrWhiteSpaceChar c" and "c \<noteq> CHR ''+''" and "c \<noteq> CHR ''-''"
  using assms by (auto simp: isDigit_def isStrWhiteSpaceChar_def)

lemma hd_natToString_digit: "isDigit (hd (natToString n))"
  using natToString_not_empty natToString_digits hd_in_set by blast

lemma takeWhile_natToString: "takeWhile isDigit (natToString n) = natToString n"
  by (simp add: takeWhile_eq_all_conv natToString_digits)

lemma parseInt10_natToString: "parseInt10 (natToString n) = Num (int n)"
proof -
  let ?s = "natToString n"
  have "dropWhile isStrWhiteSpaceChar ?s = ?s"
    using hd_natToString_digit [of n] isDigit_plain(1) natToString_not_empty [of n]
    by (cases ?s) auto
  moreover have "hd ?s \<noteq> CHR ''+''" "hd ?s \<noteq> CHR ''-''"
    using hd_natToString_digit [of n] isDigit_plain by blast+
  ultimately show ?thesis
    by (simp add: parseInt10_def Let_def takeWhile_natToString natToString_not_empty
        digitsValue_natToString)
qed

lemma parseInt10_minus_natToString: "parseInt10 (CHR ''-'' # natToString n) = Num (- int n)"
  by (simp add: parseInt10_def Let_def isStrWhiteSpaceChar_def takeWhile_natToString
      natToString_not_empty digitsValue_natToString)

lemma parseInt10_numberToString: "parseInt10 (numberToString (Num n)) = Num n"
  by (simp add: parseInt10_natToString parseInt10_minus_natToString)

lemma natToString_5: "natToString 5 = ''5''"
  by (simp add: natToString.simps [of 5] digitChar_def)

lemma natToString_examples:
  "natToString (Suc 0) = ''1''"
  "natToString 50 = ''50''"
  "natToString 99 = ''99''"
  by (simp_all add: natToString.simps [of "Suc 0"] natToString.simps [of 50]
      natToString.simps [of 99] natToString.simps [of 5] natToString.simps [of 9]
      digitChar_def)

section \<open>The runs of the script, path by path\<close>

lemma quickTrade_fetch_rejects:
  "getBitcoinUpDownMarkets b = Rejects err \<Longrightarrow>
   quickTrade env b =
     ([ConsoleLog ''[Test Kalshi] Fetching open Bitcoin 15m up/down markets...'',
       CallGetMarkets, ConsoleError err], 1)"
  by (simp add: quickTrade_def main_def)

lemma quickTrade_no_markets:
  "getBitcoinUpDownMarkets b = Resolves [] \<Longrightarrow>
   quickTrade env b =
     ([ConsoleLog ''[Test Kalshi] Fetching open Bitcoin 15m up/down markets...'',
       CallGetMarkets,
       ConsoleError ''[Test Kalshi] No open Bitcoin up/down markets found.''], 1)"
  by (simp add: quickTrade_def main_def)

lemma quickTrade_buy_rejects:
  "getBitcoinUpDownMarkets b = Resolves (m # ms) \<Longrightarrow>
   placeOrder b (ticker m) (BOT_SIDE env) (count_of env) (priceCents_of env) live
     = Rejects err \<Longrightarrow>
   quickTrade env b = (preamble env m @ [ConsoleError err], 1)"
  by (simp add: quickTrade_def main_def preamble_def Let_def)

lemma quickTrade_buy_error:
  "getBitcoinUpDownMarkets b = Resolves (m # ms) \<Longrightarrow>
   placeOrder b (ticker m) (BOT_SIDE env) (count_of env) (priceCents_of env) live
     = Resolves (OrderError e) \<Longrightarrow>
   quickTrade env b =
     (preamble env m @ [ConsoleError (''[Test Kalshi] Buy failed: '' @ e)], 1)"
  by (simp add: quickTrade_def main_def preamble_def print2_def Let_def)

lemma quickTrade_sell_rejects:
  "getBitcoinUpDownMarkets b = Resolves (m # ms) \<Longrightarrow>
   placeOrder b (ticker m) (BOT_SIDE env) (count_of env) (priceCents_of env) live
     = Resolves (OrderId buyId) \<Longrightarrow>
   placeSellOrder b (ticker m) (BOT_SIDE env) (count_of env) live = Rejects err \<Longrightarrow>
   quickTrade env b = (preamble env m @ interlude env m buyId @ [ConsoleError err], 1)"
  by (simp add: quickTrade_def main_def preamble_def interlude_def print2_def Let_def
      DELAY_MS_def natToString_5)

lemma quickTrade_sell_error:
  "getBitcoinUpDownMarkets b = Resolves (m # ms) \<Longrightarrow>
   placeOrder b (ticker m) (BOT_SIDE env) (count_of env) (priceCents_of env) live
     = Resolves (OrderId buyId) \<Longrightarrow>
   placeSellOrder b (ticker m) (BOT_SIDE env) (count_of env) live
     = Resolves (OrderError e) \<Longrightarrow>
   quickTrade env b =
     (preamble env m @ interlude env m buyId @
      [ConsoleError (''[Test Kalshi] Sell failed: '' @ e)], 1)"
  by (simp add: quickTrade_def main_def preamble_def interlude_def print2_def Let_def
      DELAY_MS_def natToString_5)

lemma quickTrade_sell_placed:
  "getBitcoinUpDownMarkets b = Resolves (m # ms) \<Longrightarrow>
   placeOrder b (ticker m) (BOT_SIDE env) (count_of env) (priceCents_of env) live
     = Resolves (OrderId buyId) \<Longrightarrow>
   placeSellOrder b (ticker m) (BOT_SIDE env) (count_of env) live
     = Resolves (OrderId sellId) \<Longrightarrow>
   quickTrade env b =
     (preamble env m @ interlude env m buyId @
      [ConsoleLog (''[Test Kalshi] Sell placed: '' @ sellId),
       ConsoleLog ''[Test Kalshi] Done.''], 0)"
  by (simp add: quickTrade_def main_def preamble_def interlude_def print2_def Let_def
      DELAY_MS_def natToString_5)

section \<open>The order calls of an arbitrary run\<close>

lemma buyCalls_events:
  "buyCalls (events env b) =
     (case getBitcoinUpDownMarkets b of
        Resolves (m # ms) \<Rightarrow>
          [(ticker m, BOT_SIDE env, count_of env, priceCents_of env, live)]
      | _ \<Rightarrow> [])"
  by (simp add: events_def quickTrade_def main_def Let_def
      split: awaited.split list.split order_result.split)

lemma sellCalls_events:
  "sellCalls (events env b) =
     (case getBitcoinUpDownMarkets b of
        Resolves (m # ms) \<Rightarrow>
          (case placeOrder b (ticker m) (BOT_SIDE env) (count_of env) (priceCents_of env) live of
             Resolves (OrderId buyId) \<Rightarrow> [(ticker m, BOT_SIDE env, count_of env, live)]
           | _ \<Rightarrow> [])
      | _ \<Rightarrow> [])"
  by (simp add: events_def quickTrade_def main_def Let_def
      split: awaited.split list.split order_result.split)

lemma actions_buy_succeeded:
  assumes "getBitcoinUpDownMarkets b = Resolves (m # ms)"
    and "placeOrder b (ticker m) (BOT_SIDE env) (count_of env) (priceCents_of env) live
           = Resolves (OrderId buyId)"
  shows "actions (events env b) =
     [CallGetMarkets,
      CallPlaceOrder (ticker m) (BOT_SIDE env) (count_of env) (priceCents_of env) live,
      SetTimeout 5000,
      CallPlaceSellOrder (ticker m) (BOT_SIDE env) (count_of env) live]"
  using assms
  by (simp add: actions_def events_def quickTrade_def main_def Let_def DELAY_MS_def
      split: awaited.split order_result.split)

lemma config_without_dry_run:
  "BOT_SIDE (env(''KALSHI_BOT_DRY_RUN'' := v)) = BOT_SIDE env"
  "BOT_CONTRACTS (env(''KALSHI_BOT_DRY_RUN'' := v)) = BOT_CONTRACTS env"
  "BOT_PRICE_CENTS (env(''KALSHI_BOT_DRY_RUN'' := v)) = BOT_PRICE_CENTS env"
  by (simp_all add: BOT_SIDE_def BOT_CONTRACTS_def BOT_PRICE_CENTS_def)

section \<open>Concrete runs\<close>

lemma answering_simps:
  "getBitcoinUpDownMarkets (answering ms x y) = ms"
  "placeOrder (answering ms x y) t s c p opts = x"
  "placeSellOrder (answering ms x y) t s c opts = y"
  by (simp_all add: answering_def)

lemma parseInt10_examples:
  "parseInt10 ''50'' = Num 50"
  "parseInt10 ''1'' = Num 1"
  "parseInt10 ''0'' = Num 0"
  "parseInt10 ''150'' = Num 150"
  "parseInt10 ''abc'' = NaN"
  "parseInt10 [] = NaN"
  by (simp_all add: parseInt10_def isStrWhiteSpaceChar_def isDigit_def digitsValue_def
      digitValue_def)

lemma default_config:
  "BOT_SIDE Map.empty = ''yes''"
  "BOT_CONTRACTS Map.empty = Num 1"
  "BOT_PRICE_CENTS Map.empty = Num 50"
  by (simp_all add: BOT_SIDE_def BOT_CONTRACTS_def BOT_PRICE_CENTS_def nullish_def
      parseInt10_examples)

section \<open>The claims\<close>

text \<open>
  C1. Whatever the dry-run variable \<^verbatim>\<open>KALSHI_BOT_DRY_RUN\<close> holds (unset, or any string),
  the run is the same: the same events with the same arguments and the same exit status,
  for the same answers of the collaborator. Every buy call and every sell call of a run
  carries the options \<^verbatim>\<open>{ arbLive: true }\<close>.
\<close>

theorem C1_order_calls_ignore_dry_run:
  "quickTrade (env(''KALSHI_BOT_DRY_RUN'' := v)) b = quickTrade env b
   \<and> list_all (\<lambda>(t, s, c, p, opts). opts = \<lparr>arbLive = True\<rparr>) (buyCalls (events env b))
   \<and> list_all (\<lambda>(t, s, c, opts). opts = \<lparr>arbLive = True\<rparr>) (sellCalls (events env b))"
proof -
  have "main (env(''KALSHI_BOT_DRY_RUN'' := v)) b = main env b"
    by (simp only: main_def config_without_dry_run)
  then have "quickTrade (env(''KALSHI_BOT_DRY_RUN'' := v)) b = quickTrade env b"
    by (simp only: quickTrade_def)
  moreover have
    "list_all (\<lambda>(t, s, c, p, opts). opts = \<lparr>arbLive = True\<rparr>) (buyCalls (events env b))"
    by (simp add: buyCalls_events split: awaited.split list.split)
  moreover have
    "list_all (\<lambda>(t, s, c, opts). opts = \<lparr>arbLive = True\<rparr>) (sellCalls (events env b))"
    by (simp add: sellCalls_events split: awaited.split list.split order_result.split)
  ultimately show ?thesis by simp
qed

text \<open>
  A run with both order calls, once with the dry-run variable set to \<^verbatim>\<open>"true"\<close> and
  once with it unset: the flag differs, the run does not.
\<close>

theorem C1_witness:
  "BOT_DRY_RUN [''KALSHI_BOT_DRY_RUN'' \<mapsto> ''true''] \<and> \<not> BOT_DRY_RUN Map.empty
   \<and> quickTrade [''KALSHI_BOT_DRY_RUN'' \<mapsto> ''true'']
        (answering (Resolves [\<lparr>ticker = ''ABC''\<rparr>]) (Resolves (OrderId ''b1''))
           (Resolves (OrderId ''s1'')))
     = quickTrade Map.empty
        (answering (Resolves [\<lparr>ticker = ''ABC''\<rparr>]) (Resolves (OrderId ''b1''))
           (Resolves (OrderId ''s1'')))
   \<and> buyCalls (events Map.empty
        (answering (Resolves [\<lparr>ticker = ''ABC''\<rparr>]) (Resolves (OrderId ''b1''))
           (Resolves (OrderId ''s1''))))
     = [(''ABC'', ''yes'', Num 1, Num 50, \<lparr>arbLive = True\<rparr>)]
   \<and> sellCalls (events Map.empty
        (answering (Resolves [\<lparr>ticker = ''ABC''\<rparr>]) (Resolves (OrderId ''b1''))
           (Resolves (OrderId ''s1''))))
     = [(''ABC'', ''yes'', Num 1, \<lparr>arbLive = True\<rparr>)]"
  using C1_order_calls_ignore_dry_run [of Map.empty "Some ''true''"
      "answering (Resolves [\<lparr>ticker = ''ABC''\<rparr>]) (Resolves (OrderId ''b1''))
         (Resolves (OrderId ''s1''))"]
  by (simp add: BOT_DRY_RUN_def buyCalls_events sellCalls_events answering_simps
      default_config)

text \<open>
  C2. When the market fetch returns an empty sequence, the process exits with status 1;
  the run has made no buy call and no sell call (its only call is the fetch).
\<close>

theorem C2_no_markets_exit_1:
  "getBitcoinUpDownMarkets b = Resolves [] \<Longrightarrow>
   exitCode env b = 1 \<and> buyCalls (events env b) = [] \<and> sellCalls (events env b) = []
   \<and> actions (events env b) = [CallGetMarkets]"
  by (simp add: exitCode_def events_def actions_def quickTrade_no_markets)

theorem C2_witness:
  "getBitcoinUpDownMarkets
     (answering (Resolves []) (Resolves (OrderId ''b1'')) (Resolves (OrderId ''s1'')))
     = Resolves []
   \<and> exitCode Map.empty
       (answering (Resolves []) (Resolves (OrderId ''b1'')) (Resolves (OrderId ''s1''))) = 1
   \<and> buyCalls (events Map.empty
       (answering (Resolves []) (Resolves (OrderId ''b1'')) (Resolves (OrderId ''s1'')))) = []
   \<and> sellCalls (events Map.empty
       (answering (Resolves []) (Resolves (OrderId ''b1'')) (Resolves (OrderId ''s1'')))) = []"
  using C2_no_markets_exit_1 [of
      "answering (Resolves []) (Resolves (OrderId ''b1'')) (Resolves (OrderId ''s1''))"
      Map.empty]
  by (simp add: answering_simps)

text \<open>
  C3. When the buy call returns an error result, the run makes no sell call and the
  process exits with status 1 (the fetch and the buy are its only calls). In any run with
  a sell call, the buy call has returned a success result, and the buy call comes first.
\<close>

theorem C3_buy_error_no_sell:
  "(getBitcoinUpDownMarkets b = Resolves (m # ms) \<and>
    placeOrder b (ticker m) (BOT_SIDE env) (count_of env) (priceCents_of env)
      \<lparr>arbLive = True\<rparr> = Resolves (OrderError e)
    \<longrightarrow> sellCalls (events env b) = [] \<and> exitCode env b = 1 \<and>
        actions (events env b) =
          [CallGetMarkets,
           CallPlaceOrder (ticker m) (BOT_SIDE env) (count_of env) (priceCents_of env)
             \<lparr>arbLive = True\<rparr>])
   \<and> (sellCalls (events env b) \<noteq> []
    \<longrightarrow> (\<exists>m' ms' buyId.
          getBitcoinUpDownMarkets b = Resolves (m' # ms') \<and>
          placeOrder b (ticker m') (BOT_SIDE env) (count_of env) (priceCents_of env)
            \<lparr>arbLive = True\<rparr> = Resolves (OrderId buyId) \<and>
          actions (events env b) =
            [CallGetMarkets,
             CallPlaceOrder (ticker m') (BOT_SIDE env) (count_of env) (priceCents_of env)
               \<lparr>arbLive = True\<rparr>,
             SetTimeout 5000,
             CallPlaceSellOrder (ticker m') (BOT_SIDE env) (count_of env)
               \<lparr>arbLive = True\<rparr>]))"
proof (intro conjI impI)
  assume buy: "getBitcoinUpDownMarkets b = Resolves (m # ms) \<and>
    placeOrder b (ticker m) (BOT_SIDE env) (count_of env) (priceCents_of env) live
      = Resolves (OrderError e)"
  then show "sellCalls (events env b) = []"
    by (simp add: sellCalls_events)
  from buy show "exitCode env b = 1"
    by (simp add: exitCode_def quickTrade_buy_error)
  from buy show "actions (events env b) =
      [CallGetMarkets,
       CallPlaceOrder (ticker m) (BOT_SIDE env) (count_of env) (priceCents_of env) live]"
    by (simp add: events_def quickTrade_buy_error actions_def preamble_def)
next
  assume sold: "sellCalls (events env b) \<noteq> []"
  then obtain m' ms' where fetch: "getBitcoinUpDownMarkets b = Resolves (m' # ms')"
    by (auto simp: sellCalls_events split: awaited.splits list.splits)
  with sold obtain buyId where buy:
    "placeOrder b (ticker m') (BOT_SIDE env) (count_of env) (priceCents_of env) live
       = Resolves (OrderId buyId)"
    by (auto simp: sellCalls_events split: awaited.splits order_result.splits)
  from fetch buy actions_buy_succeeded [OF fetch buy]
  show "\<exists>m' ms' buyId.
      getBitcoinUpDownMarkets b = Resolves (m' # ms') \<and>
      placeOrder b (ticker m') (BOT_SIDE env) (count_of env) (priceCents_of env) live
        = Resolves (OrderId buyId) \<and>
      actions (events env b) =
        [CallGetMarkets,
         CallPlaceOrder (ticker m') (BOT_SIDE env) (count_of env) (priceCents_of env) live,
         SetTimeout 5000,
         CallPlaceSellOrder (ticker m') (BOT_SIDE env) (count_of env) live]"
    by blast
qed

text \<open>
  Two runs on the default configuration: one whose buy is refused, and one with a sell
  call, whose buy was placed.
\<close>

theorem C3_witness:
  "sellCalls (events Map.empty
      (answering (Resolves [\<lparr>ticker = ''ABC''\<rparr>]) (Resolves (OrderError ''refused''))
         (Resolves (OrderId ''s1'')))) = []
   \<and> exitCode Map.empty
      (answering (Resolves [\<lparr>ticker = ''ABC''\<rparr>]) (Resolves (OrderError ''refused''))
         (Resolves (OrderId ''s1''))) = 1
   \<and> actions (events Map.empty
      (answering (Resolves [\<lparr>ticker = ''ABC''\<rparr>]) (Resolves (OrderError ''refused''))
         (Resolves (OrderId ''s1''))))
     = [CallGetMarkets, CallPlaceOrder ''ABC'' ''yes'' (Num 1) (Num 50) \<lparr>arbLive = True\<rparr>]
   \<and> sellCalls (events Map.empty
      (answering (Resolves [\<lparr>ticker = ''ABC''\<rparr>]) (Resolves (OrderId ''b1''))
         (Resolves (OrderId ''s1'')))) \<noteq> []
   \<and> actions (events Map.empty
      (answering (Resolves [\<lparr>ticker = ''ABC''\<rparr>]) (Resolves (OrderId ''b1''))
         (Resolves (OrderId ''s1''))))
     = [CallGetMarkets, CallPlaceOrder ''ABC'' ''yes'' (Num 1) (Num 50) \<lparr>arbLive = True\<rparr>,
        SetTimeout 5000, CallPlaceSellOrder ''ABC'' ''yes'' (Num 1) \<lparr>arbLive = True\<rparr>]"
  using
    C3_buy_error_no_sell [of
      "answering (Resolves [\<lparr>ticker = ''ABC''\<rparr>]) (Resolves (OrderError ''refused''))
         (Resolves (OrderId ''s1''))"
      "\<lparr>ticker = ''ABC''\<rparr>" "[]" Map.empty "''refused''"]
    C3_buy_error_no_sell [of
      "answering (Resolves [\<lparr>ticker = ''ABC''\<rparr>]) (Resolves (OrderId ''b1''))
         (Resolves (OrderId ''s1''))"
      "\<lparr>ticker = ''ABC''\<rparr>" "[]" Map.empty "''refused''"]
  by (simp add: answering_simps default_config sellCalls_events)

text \<open>
  C4. When the buy call returns a success result, the run makes exactly one sell call,
  with the ticker, the side and the clamped count of the buy call, and the sell call
  comes after the timer of 5000 ms the runner waits for: the calls and the timer of the
  run are the fetch, the buy, the timer and the sell, in this order.
\<close>

theorem C4_one_sell_after_delay:
  "getBitcoinUpDownMarkets b = Resolves (m # ms) \<Longrightarrow>
   placeOrder b (ticker m) (BOT_SIDE env) (count_of env) (priceCents_of env)
     \<lparr>arbLive = True\<rparr> = Resolves (OrderId buyId) \<Longrightarrow>
   sellCalls (events env b) = [(ticker m, BOT_SIDE env, count_of env, \<lparr>arbLive = True\<rparr>)]
   \<and> buyCalls (events env b) =
       [(ticker m, BOT_SIDE env, count_of env, priceCents_of env, \<lparr>arbLive = True\<rparr>)]
   \<and> actions (events env b) =
       [CallGetMarkets,
        CallPlaceOrder (ticker m) (BOT_SIDE env) (count_of env) (priceCents_of env)
          \<lparr>arbLive = True\<rparr>,
        SetTimeout 5000,
        CallPlaceSellOrder (ticker m) (BOT_SIDE env) (count_of env) \<lparr>arbLive = True\<rparr>]"
  by (simp add: sellCalls_events buyCalls_events actions_buy_succeeded)

theorem C4_witness:
  "sellCalls (events [''KALSHI_BOT_CONTRACTS'' \<mapsto> ''0'']
      (answering (Resolves [\<lparr>ticker = ''ABC''\<rparr>, \<lparr>ticker = ''DEF''\<rparr>])
         (Resolves (OrderId ''b1'')) (Rejects ''timeout'')))
     = [(''ABC'', ''yes'', Num 1, \<lparr>arbLive = True\<rparr>)]
   \<and> actions (events [''KALSHI_BOT_CONTRACTS'' \<mapsto> ''0'']
      (answering (Resolves [\<lparr>ticker = ''ABC''\<rparr>, \<lparr>ticker = ''DEF''\<rparr>])
         (Resolves (OrderId ''b1'')) (Rejects ''timeout'')))
     = [CallGetMarkets, CallPlaceOrder ''ABC'' ''yes'' (Num 1) (Num 50) \<lparr>arbLive = True\<rparr>,
        SetTimeout 5000, CallPlaceSellOrder ''ABC'' ''yes'' (Num 1) \<lparr>arbLive = True\<rparr>]"
  using C4_one_sell_after_delay [of
      "answering (Resolves [\<lparr>ticker = ''ABC''\<rparr>, \<lparr>ticker = ''DEF''\<rparr>])
         (Resolves (OrderId ''b1'')) (Rejects ''timeout'')"
      "\<lparr>ticker = ''ABC''\<rparr>" "[\<lparr>ticker = ''DEF''\<rparr>]"
      "[''KALSHI_BOT_CONTRACTS'' \<mapsto> ''0'']" "''b1''"]
  by (simp add: answering_simps BOT_SIDE_def BOT_CONTRACTS_def BOT_PRICE_CENTS_def
      nullish_def parseInt10_examples)

text \<open>
  C5. When the buy call and the sell call both return success results, the process ends
  with status 0 and standard output holds, in this order, the line
  \<^verbatim>\<open>[Test Kalshi] Buy placed: <buy id>\<close> and the line \<^verbatim>\<open>[Test Kalshi] Sell placed: <sell id>\<close>
  (each line carries the script's prefix \<^verbatim>\<open>[Test Kalshi]\<close>). For the scenario of one
  fetched market \<^verbatim>\<open>{ticker:"ABC"}\<close>, buy result \<^verbatim>\<open>{orderId:"b1"}\<close> and sell result
  \<^verbatim>\<open>{orderId:"s1"}\<close>, under any configuration, the status is 0 and the lines are
  \<^verbatim>\<open>Buy placed: b1\<close> and then \<^verbatim>\<open>Sell placed: s1\<close> behind that prefix.
\<close>

theorem C5_both_placed_exit_0:
  "(getBitcoinUpDownMarkets b = Resolves (m # ms) \<and>
    placeOrder b (ticker m) (BOT_SIDE env) (count_of env) (priceCents_of env)
      \<lparr>arbLive = True\<rparr> = Resolves (OrderId buyId) \<and>
    placeSellOrder b (ticker m) (BOT_SIDE env) (count_of env) \<lparr>arbLive = True\<rparr>
      = Resolves (OrderId sellId)
    \<longrightarrow> exitCode env b = 0 \<and>
        logged (events env b) =
          [''[Test Kalshi] Fetching open Bitcoin 15m up/down markets...'',
           ''[Test Kalshi] Market: '' @ ticker m,
           ''[Test Kalshi] Side: '' @ BOT_SIDE env @ '' (yes=up, no=down), count='' @
             numberToString (count_of env) @ '', price='' @
             numberToString (priceCents_of env) @ ''c'',
           ''[Test Kalshi] Placing BUY...'',
           ''[Test Kalshi] '' @ ''Buy placed: '' @ buyId,
           ''[Test Kalshi] Waiting 5s...'',
           ''[Test Kalshi] Placing SELL to exit...'',
           ''[Test Kalshi] '' @ ''Sell placed: '' @ sellId,
           ''[Test Kalshi] Done.''])
   \<and> exitCode env
        (answering (Resolves [\<lparr>ticker = ''ABC''\<rparr>]) (Resolves (OrderId ''b1''))
           (Resolves (OrderId ''s1''))) = 0
   \<and> logged (events env
        (answering (Resolves [\<lparr>ticker = ''ABC''\<rparr>]) (Resolves (OrderId ''b1''))
           (Resolves (OrderId ''s1'')))) =
          [''[Test Kalshi] Fetching open Bitcoin 15m up/down markets...'',
           ''[Test Kalshi] Market: ABC'',
           ''[Test Kalshi] Side: '' @ BOT_SIDE env @ '' (yes=up, no=down), count='' @
             numberToString (count_of env) @ '', price='' @
             numberToString (priceCents_of env) @ ''c'',
           ''[Test Kalshi] Placing BUY...'',
           ''[Test Kalshi] Buy placed: b1'',
           ''[Test Kalshi] Waiting 5s...'',
           ''[Test Kalshi] Placing SELL to exit...'',
           ''[Test Kalshi] Sell placed: s1'',
           ''[Test Kalshi] Done.'']"
proof -
  have general: "exitCode env c = 0 \<and>
      logged (events env c) =
        [''[Test Kalshi] Fetching open Bitcoin 15m up/down markets...'',
         ''[Test Kalshi] Market: '' @ ticker k,
         ''[Test Kalshi] Side: '' @ BOT_SIDE env @ '' (yes=up, no=down), count='' @
           numberToString (count_of env) @ '', price='' @
           numberToString (priceCents_of env) @ ''c'',
         ''[Test Kalshi] Placing BUY...'',
         ''[Test Kalshi] '' @ ''Buy placed: '' @ x,
         ''[Test Kalshi] Waiting 5s...'',
         ''[Test Kalshi] Placing SELL to exit...'',
         ''[Test Kalshi] '' @ ''Sell placed: '' @ y,
         ''[Test Kalshi] Done.'']"
    if "getBitcoinUpDownMarkets c = Resolves (k # ks)"
      and "placeOrder c (ticker k) (BOT_SIDE env) (count_of env) (priceCents_of env) live
             = Resolves (OrderId x)"
      and "placeSellOrder c (ticker k) (BOT_SIDE env) (count_of env) live
             = Resolves (OrderId y)"
    for c k ks x y
    using that
    by (simp add: exitCode_def events_def quickTrade_sell_placed preamble_def
        interlude_def)
  let ?scenario = "answering (Resolves [\<lparr>ticker = ''ABC''\<rparr>]) (Resolves (OrderId ''b1''))
    (Resolves (OrderId ''s1''))"
  have scenario: "exitCode env ?scenario = 0 \<and>
      logged (events env ?scenario) =
        [''[Test Kalshi] Fetching open Bitcoin 15m up/down markets...'',
         ''[Test Kalshi] Market: ABC'',
         ''[Test Kalshi] Side: '' @ BOT_SIDE env @ '' (yes=up, no=down), count='' @
           numberToString (count_of env) @ '', price='' @
           numberToString (priceCents_of env) @ ''c'',
         ''[Test Kalshi] Placing BUY...'',
         ''[Test Kalshi] Buy placed: b1'',
         ''[Test Kalshi] Waiting 5s...'',
         ''[Test Kalshi] Placing SELL to exit...'',
         ''[Test Kalshi] Sell placed: s1'',
         ''[Test Kalshi] Done.'']"
    using general [of ?scenario "\<lparr>ticker = ''ABC''\<rparr>" "[]" "''b1''" "''s1''"]
    by (simp add: answering_simps)
  from general [of b m ms buyId sellId] scenario show ?thesis
    by blast
qed

text \<open>The scenario on the default configuration: every line of the run.\<close>

theorem C5_witness:
  "exitCode Map.empty
     (answering (Resolves [\<lparr>ticker = ''ABC''\<rparr>]) (Resolves (OrderId ''b1''))
        (Resolves (OrderId ''s1''))) = 0
   \<and> logged (events Map.empty
     (answering (Resolves [\<lparr>ticker = ''ABC''\<rparr>]) (Resolves (OrderId ''b1''))
        (Resolves (OrderId ''s1'')))) =
       [''[Test Kalshi] Fetching open Bitcoin 15m up/down markets...'',
        ''[Test Kalshi] Market: ABC'',
        ''[Test Kalshi] Side: yes (yes=up, no=down), count=1, price=50c'',
        ''[Test Kalshi] Placing BUY...'',
        ''[Test Kalshi] Buy placed: b1'',
        ''[Test Kalshi] Waiting 5s...'',
        ''[Test Kalshi] Placing SELL to exit...'',
        ''[Test Kalshi] Sell placed: s1'',
        ''[Test Kalshi] Done.'']"
  using C5_both_placed_exit_0 [of
      "answering (Resolves [\<lparr>ticker = ''ABC''\<rparr>]) (Resolves (OrderId ''b1''))
         (Resolves (OrderId ''s1''))"
      "\<lparr>ticker = ''ABC''\<rparr>" "[]" Map.empty "''b1''" "''s1''"]
  by (simp add: answering_simps default_config natToString_examples)

text \<open>
  C6. A configured price outside the range from 1 to 99 reaches the buy call clamped
  into it: a price above 99 as 99, a price below 1 as 1. With \<^verbatim>\<open>"150"\<close> in the price
  variable the buy call gets the price 99.
\<close>

theorem C6_price_clamped:
  "(getBitcoinUpDownMarkets b = Resolves (m # ms) \<and> num_less (Num 99) (BOT_PRICE_CENTS env)
    \<longrightarrow> buyCalls (events env b) =
          [(ticker m, BOT_SIDE env, count_of env, Num 99, \<lparr>arbLive = True\<rparr>)])
   \<and> (getBitcoinUpDownMarkets b = Resolves (m # ms) \<and> num_less (BOT_PRICE_CENTS env) (Num 1)
    \<longrightarrow> buyCalls (events env b) =
          [(ticker m, BOT_SIDE env, count_of env, Num 1, \<lparr>arbLive = True\<rparr>)])
   \<and> (getBitcoinUpDownMarkets b = Resolves (m # ms)
    \<longrightarrow> buyCalls (events (env(''KALSHI_BOT_PRICE_CENTS'' \<mapsto> ''150'')) b) =
          [(ticker m, BOT_SIDE env, count_of env, Num 99, \<lparr>arbLive = True\<rparr>)])"
proof -
  have above: "priceCents_of e = Num 99" if "num_less (Num 99) (BOT_PRICE_CENTS e)" for e
    using that by (cases "BOT_PRICE_CENTS e") simp_all
  have below: "priceCents_of e = Num 1" if "num_less (BOT_PRICE_CENTS e) (Num 1)" for e
    using that by (cases "BOT_PRICE_CENTS e") simp_all
  let ?env = "env(''KALSHI_BOT_PRICE_CENTS'' \<mapsto> ''150'')"
  have "BOT_PRICE_CENTS ?env = Num 150"
    by (simp add: BOT_PRICE_CENTS_def nullish_def parseInt10_examples)
  then have "priceCents_of ?env = Num 99"
    by simp
  moreover have "BOT_SIDE ?env = BOT_SIDE env" "BOT_CONTRACTS ?env = BOT_CONTRACTS env"
    by (simp_all add: BOT_SIDE_def BOT_CONTRACTS_def)
  ultimately show ?thesis
    using above [of env] below [of env] by (simp add: buyCalls_events)
qed

text \<open>
  Prices of 150 and of 0 in the variable: the buy call gets 99 and 1.
\<close>

theorem C6_witness:
  "buyCalls (events [''KALSHI_BOT_PRICE_CENTS'' \<mapsto> ''150'', ''KALSHI_BOT_CONTRACTS'' \<mapsto> ''0'']
      (answering (Resolves [\<lparr>ticker = ''ABC''\<rparr>]) (Resolves (OrderId ''b1''))
         (Resolves (OrderId ''s1''))))
     = [(''ABC'', ''yes'', Num 1, Num 99, \<lparr>arbLive = True\<rparr>)]
   \<and> buyCalls (events [''KALSHI_BOT_PRICE_CENTS'' \<mapsto> ''0'']
      (answering (Resolves [\<lparr>ticker = ''ABC''\<rparr>]) (Resolves (OrderId ''b1''))
         (Resolves (OrderId ''s1''))))
     = [(''ABC'', ''yes'', Num 1, Num 1, \<lparr>arbLive = True\<rparr>)]"
  using
    C6_price_clamped [of
      "answering (Resolves [\<lparr>ticker = ''ABC''\<rparr>]) (Resolves (OrderId ''b1''))
         (Resolves (OrderId ''s1''))"
      "\<lparr>ticker = ''ABC''\<rparr>" "[]"
      "[''KALSHI_BOT_PRICE_CENTS'' \<mapsto> ''150'', ''KALSHI_BOT_CONTRACTS'' \<mapsto> ''0'']"]
    C6_price_clamped [of
      "answering (Resolves [\<lparr>ticker = ''ABC''\<rparr>]) (Resolves (OrderId ''b1''))
         (Resolves (OrderId ''s1''))"
      "\<lparr>ticker = ''ABC''\<rparr>" "[]" "[''KALSHI_BOT_PRICE_CENTS'' \<mapsto> ''0'']"]
  by (simp add: answering_simps BOT_SIDE_def BOT_CONTRACTS_def BOT_PRICE_CENTS_def
      nullish_def parseInt10_examples)

text \<open>
  C7. A configured contract count below 1 reaches every buy call and every sell call of
  the run as exactly 1: the buy call that follows a fetched market, and the sell call
  that follows a placed buy. With \<^verbatim>\<open>"0"\<close> in the contracts variable both calls get
  the count 1.
\<close>

theorem C7_count_at_least_1:
  "num_less (BOT_CONTRACTS env) (Num 1) \<Longrightarrow>
     list_all (\<lambda>(t, s, c, p, opts). c = Num 1) (buyCalls (events env b))
   \<and> list_all (\<lambda>(t, s, c, opts). c = Num 1) (sellCalls (events env b))
   \<and> (getBitcoinUpDownMarkets b = Resolves (m # ms)
      \<longrightarrow> buyCalls (events env b) =
            [(ticker m, BOT_SIDE env, Num 1, priceCents_of env, \<lparr>arbLive = True\<rparr>)])
   \<and> (getBitcoinUpDownMarkets b = Resolves (m # ms) \<and>
       placeOrder b (ticker m) (BOT_SIDE env) (Num 1) (priceCents_of env) \<lparr>arbLive = True\<rparr>
         = Resolves (OrderId buyId)
      \<longrightarrow> sellCalls (events env b) = [(ticker m, BOT_SIDE env, Num 1, \<lparr>arbLive = True\<rparr>)])"
proof -
  assume "num_less (BOT_CONTRACTS env) (Num 1)"
  then have count: "count_of env = Num 1"
    by (cases "BOT_CONTRACTS env") simp_all
  show ?thesis
    by (simp add: buyCalls_events sellCalls_events count
        split: awaited.split list.split order_result.split)
qed

theorem C7_witness:
  "BOT_CONTRACTS [''KALSHI_BOT_CONTRACTS'' \<mapsto> ''0''] = Num 0
   \<and> buyCalls (events [''KALSHI_BOT_CONTRACTS'' \<mapsto> ''0'']
      (answering (Resolves [\<lparr>ticker = ''ABC''\<rparr>]) (Resolves (OrderId ''b1''))
         (Resolves (OrderId ''s1''))))
     = [(''ABC'', ''yes'', Num 1, Num 50, \<lparr>arbLive = True\<rparr>)]
   \<and> sellCalls (events [''KALSHI_BOT_CONTRACTS'' \<mapsto> ''0'']
      (answering (Resolves [\<lparr>ticker = ''ABC''\<rparr>]) (Resolves (OrderId ''b1''))
         (Resolves (OrderId ''s1''))))
     = [(''ABC'', ''yes'', Num 1, \<lparr>arbLive = True\<rparr>)]"
  using C7_count_at_least_1 [of "[''KALSHI_BOT_CONTRACTS'' \<mapsto> ''0'']"
      "answering (Resolves [\<lparr>ticker = ''ABC''\<rparr>]) (Resolves (OrderId ''b1''))
         (Resolves (OrderId ''s1''))"
      "\<lparr>ticker = ''ABC''\<rparr>" "[]" "''b1''"]
  by (simp add: answering_simps BOT_SIDE_def BOT_CONTRACTS_def BOT_PRICE_CENTS_def
      nullish_def parseInt10_examples)

text \<open>
  C8. With its variable unset, the loader gives the side \<^verbatim>\<open>"yes"\<close>, the price 50, the
  contract count 1, the market limit 1 and the dry-run flag false. With its variable
  set, it only parses: the side is the string as it stands, each number is
  \<^verbatim>\<open>parseInt\<close> of the string, and the dry-run flag says whether the string is
  \<^verbatim>\<open>"true"\<close>. No range is checked: the decimal text of every integer of magnitude up
  to \<open>2 ^ 53\<close> (the integers a Number holds exactly), whether a valid price or count or
  not, comes back as that integer.
\<close>

theorem C8_loader_defaults_and_parsing:
  "BOT_SIDE (env(''KALSHI_BOT_SIDE'' := None)) = ''yes''
   \<and> BOT_PRICE_CENTS (env(''KALSHI_BOT_PRICE_CENTS'' := None)) = Num 50
   \<and> BOT_CONTRACTS (env(''KALSHI_BOT_CONTRACTS'' := None)) = Num 1
   \<and> BOT_MAX_MARKETS (env(''KALSHI_BOT_MAX_MARKETS'' := None)) = Num 1
   \<and> BOT_DRY_RUN (env(''KALSHI_BOT_DRY_RUN'' := None)) = False
   \<and> BOT_SIDE (env(''KALSHI_BOT_SIDE'' \<mapsto> s)) = s
   \<and> BOT_PRICE_CENTS (env(''KALSHI_BOT_PRICE_CENTS'' \<mapsto> s)) = parseInt10 s
   \<and> BOT_CONTRACTS (env(''KALSHI_BOT_CONTRACTS'' \<mapsto> s)) = parseInt10 s
   \<and> BOT_MAX_MARKETS (env(''KALSHI_BOT_MAX_MARKETS'' \<mapsto> s)) = parseInt10 s
   \<and> BOT_DRY_RUN (env(''KALSHI_BOT_DRY_RUN'' \<mapsto> s)) = (s = ''true'')
   \<and> (\<bar>n\<bar> \<le> 2 ^ 53 \<longrightarrow>
        BOT_PRICE_CENTS (env(''KALSHI_BOT_PRICE_CENTS'' \<mapsto> numberToString (Num n))) = Num n
      \<and> BOT_CONTRACTS (env(''KALSHI_BOT_CONTRACTS'' \<mapsto> numberToString (Num n))) = Num n
      \<and> BOT_MAX_MARKETS (env(''KALSHI_BOT_MAX_MARKETS'' \<mapsto> numberToString (Num n))) = Num n)"
proof -
  have defaults: "parseInt10 ''50'' = Num 50" "parseInt10 ''1'' = Num 1"
    by (simp_all add: parseInt10_examples)
  show ?thesis
    unfolding BOT_SIDE_def BOT_PRICE_CENTS_def BOT_CONTRACTS_def BOT_MAX_MARKETS_def
      BOT_DRY_RUN_def nullish_def
    by (simp add: defaults parseInt10_numberToString del: numberToString.simps)
qed

text \<open>
  The empty environment, and variables holding \<^verbatim>\<open>"maybe"\<close> and the decimal text of
  150 and of -7, and the text of \<open>2 ^ 53\<close>.
\<close>

theorem C8_witness:
  "BOT_SIDE Map.empty = ''yes'' \<and> BOT_PRICE_CENTS Map.empty = Num 50
   \<and> BOT_CONTRACTS Map.empty = Num 1 \<and> BOT_MAX_MARKETS Map.empty = Num 1
   \<and> BOT_DRY_RUN Map.empty = False
   \<and> BOT_SIDE [''KALSHI_BOT_SIDE'' \<mapsto> ''maybe''] = ''maybe''
   \<and> BOT_DRY_RUN [''KALSHI_BOT_DRY_RUN'' \<mapsto> ''maybe''] = False
   \<and> \<bar>150\<bar> \<le> (2 :: int) ^ 53
   \<and> numberToString (Num 150) = ''150''
   \<and> BOT_PRICE_CENTS [''KALSHI_BOT_PRICE_CENTS'' \<mapsto> ''150''] = Num 150
   \<and> \<bar>- 7\<bar> \<le> (2 :: int) ^ 53
   \<and> numberToString (Num (- 7)) = ''-7''
   \<and> BOT_CONTRACTS [''KALSHI_BOT_CONTRACTS'' \<mapsto> ''-7''] = Num (- 7)
   \<and> \<bar>9007199254740992\<bar> \<le> (2 :: int) ^ 53
   \<and> BOT_MAX_MARKETS
         [''KALSHI_BOT_MAX_MARKETS'' \<mapsto> numberToString (Num 9007199254740992)]
       = Num 9007199254740992"
proof -
  have texts: "numberToString (Num 150) = ''150''" "numberToString (Num (- 7)) = ''-7''"
    by (simp_all add: natToString.simps [of 150] natToString.simps [of 15]
        natToString.simps [of "Suc 0"] natToString.simps [of 7] digitChar_def)
  from C8_loader_defaults_and_parsing [of Map.empty "''maybe''" 150]
    C8_loader_defaults_and_parsing [of Map.empty "''maybe''" "- 7"]
    C8_loader_defaults_and_parsing [of Map.empty "''maybe''" 9007199254740992]
  show ?thesis
    unfolding texts by (simp del: numberToString.simps)
qed

text \<open>
  C9. There are values of the price variable that \<^verbatim>\<open>parseInt\<close> cannot read, the
  non-numeric string \<^verbatim>\<open>"abc"\<close> for one. For every such string the loader yields the
  price \<^verbatim>\<open>NaN\<close>, the runner's clamp \<^verbatim>\<open>Math.max(1, Math.min(99, price))\<close> yields
  \<^verbatim>\<open>NaN\<close> again, and the price the buy call gets is not in the range from 1 to 99. The
  contracts variable fails the same way: the loader yields \<^verbatim>\<open>NaN\<close>, the clamp
  \<^verbatim>\<open>Math.max(1, count)\<close> yields \<^verbatim>\<open>NaN\<close>, and the count of the buy call is not at
  least 1.
\<close>

theorem C9_unparsable_number_is_NaN:
  "parseInt10 ''abc'' = NaN
   \<and> (parseInt10 s = NaN \<longrightarrow>
        BOT_PRICE_CENTS (env(''KALSHI_BOT_PRICE_CENTS'' \<mapsto> s)) = NaN
      \<and> priceCents_of (env(''KALSHI_BOT_PRICE_CENTS'' \<mapsto> s)) = NaN
      \<and> \<not> (num_le (Num 1) (priceCents_of (env(''KALSHI_BOT_PRICE_CENTS'' \<mapsto> s))) \<and>
           num_le (priceCents_of (env(''KALSHI_BOT_PRICE_CENTS'' \<mapsto> s))) (Num 99))
      \<and> BOT_CONTRACTS (env(''KALSHI_BOT_CONTRACTS'' \<mapsto> s)) = NaN
      \<and> count_of (env(''KALSHI_BOT_CONTRACTS'' \<mapsto> s)) = NaN
      \<and> \<not> num_le (Num 1) (count_of (env(''KALSHI_BOT_CONTRACTS'' \<mapsto> s))))
   \<and> (parseInt10 s = NaN \<and> getBitcoinUpDownMarkets b = Resolves (m # ms) \<longrightarrow>
        buyCalls (events (env(''KALSHI_BOT_PRICE_CENTS'' \<mapsto> s)) b) =
          [(ticker m, BOT_SIDE env, count_of env, NaN, \<lparr>arbLive = True\<rparr>)]
      \<and> buyCalls (events (env(''KALSHI_BOT_CONTRACTS'' \<mapsto> s)) b) =
          [(ticker m, BOT_SIDE env, NaN, priceCents_of env, \<lparr>arbLive = True\<rparr>)])"
proof -
  let ?p = "env(''KALSHI_BOT_PRICE_CENTS'' \<mapsto> s)"
  let ?c = "env(''KALSHI_BOT_CONTRACTS'' \<mapsto> s)"
  have price: "BOT_PRICE_CENTS ?p = parseInt10 s" "BOT_SIDE ?p = BOT_SIDE env"
    "BOT_CONTRACTS ?p = BOT_CONTRACTS env"
    by (simp_all add: BOT_PRICE_CENTS_def BOT_SIDE_def BOT_CONTRACTS_def nullish_def)
  have contracts: "BOT_CONTRACTS ?c = parseInt10 s" "BOT_SIDE ?c = BOT_SIDE env"
    "BOT_PRICE_CENTS ?c = BOT_PRICE_CENTS env"
    by (simp_all add: BOT_PRICE_CENTS_def BOT_SIDE_def BOT_CONTRACTS_def nullish_def)
  show ?thesis
    by (simp add: parseInt10_examples buyCalls_events price contracts)
qed

text \<open>The string \<^verbatim>\<open>"abc"\<close> in the price variable and in the contracts variable.\<close>

theorem C9_witness:
  "parseInt10 ''abc'' = NaN
   \<and> BOT_PRICE_CENTS [''KALSHI_BOT_PRICE_CENTS'' \<mapsto> ''abc''] = NaN
   \<and> BOT_CONTRACTS [''KALSHI_BOT_CONTRACTS'' \<mapsto> ''abc''] = NaN
   \<and> buyCalls (events [''KALSHI_BOT_PRICE_CENTS'' \<mapsto> ''abc'']
      (answering (Resolves [\<lparr>ticker = ''ABC''\<rparr>]) (Resolves (OrderId ''b1''))
         (Resolves (OrderId ''s1''))))
     = [(''ABC'', ''yes'', Num 1, NaN, \<lparr>arbLive = True\<rparr>)]
   \<and> buyCalls (events [''KALSHI_BOT_CONTRACTS'' \<mapsto> ''abc'']
      (answering (Resolves [\<lparr>ticker = ''ABC''\<rparr>]) (Resolves (OrderId ''b1''))
         (Resolves (OrderId ''s1''))))
     = [(''ABC'', ''yes'', NaN, Num 50, \<lparr>arbLive = True\<rparr>)]
   \<and> \<not> (num_le (Num 1) NaN \<and> num_le NaN (Num 99))"
  using C9_unparsable_number_is_NaN [of "''abc''" Map.empty
      "answering (Resolves [\<lparr>ticker = ''ABC''\<rparr>]) (Resolves (OrderId ''b1''))
         (Resolves (OrderId ''s1''))"
      "\<lparr>ticker = ''ABC''\<rparr>" "[]"]
  by (simp add: answering_simps default_config)

text \<open>
  C10. Whatever string the side variable holds, the loader returns it unchanged, and it
  is the side argument of every buy call and every sell call of the run: of the buy call
  that follows a fetched market and of the sell call that follows a placed buy, also when
  it is neither \<^verbatim>\<open>"yes"\<close> nor \<^verbatim>\<open>"no"\<close>.
\<close>

theorem C10_side_passed_unvalidated:
  "BOT_SIDE (env(''KALSHI_BOT_SIDE'' \<mapsto> S)) = S
   \<and> list_all (\<lambda>(t, s, c, p, opts). s = S)
        (buyCalls (events (env(''KALSHI_BOT_SIDE'' \<mapsto> S)) b))
   \<and> list_all (\<lambda>(t, s, c, opts). s = S)
        (sellCalls (events (env(''KALSHI_BOT_SIDE'' \<mapsto> S)) b))
   \<and> (getBitcoinUpDownMarkets b = Resolves (m # ms)
      \<longrightarrow> buyCalls (events (env(''KALSHI_BOT_SIDE'' \<mapsto> S)) b) =
            [(ticker m, S, count_of env, priceCents_of env, \<lparr>arbLive = True\<rparr>)])
   \<and> (getBitcoinUpDownMarkets b = Resolves (m # ms) \<and>
       placeOrder b (ticker m) S (count_of env) (priceCents_of env) \<lparr>arbLive = True\<rparr>
         = Resolves (OrderId buyId)
      \<longrightarrow> sellCalls (events (env(''KALSHI_BOT_SIDE'' \<mapsto> S)) b) =
            [(ticker m, S, count_of env, \<lparr>arbLive = True\<rparr>)])"
proof -
  let ?env = "env(''KALSHI_BOT_SIDE'' \<mapsto> S)"
  have side: "BOT_SIDE ?env = S" "BOT_CONTRACTS ?env = BOT_CONTRACTS env"
    "BOT_PRICE_CENTS ?env = BOT_PRICE_CENTS env"
    by (simp_all add: BOT_PRICE_CENTS_def BOT_SIDE_def BOT_CONTRACTS_def nullish_def)
  show ?thesis
    by (simp add: buyCalls_events sellCalls_events side
        split: awaited.split list.split order_result.split)
qed

text \<open>The side \<^verbatim>\<open>"maybe"\<close>, and the empty string, which \<^verbatim>\<open>??\<close> does not replace.\<close>

theorem C10_witness:
  "''maybe'' \<noteq> ''yes'' \<and> ''maybe'' \<noteq> ''no''
   \<and> BOT_SIDE [''KALSHI_BOT_SIDE'' \<mapsto> ''maybe''] = ''maybe''
   \<and> buyCalls (events [''KALSHI_BOT_SIDE'' \<mapsto> ''maybe'']
      (answering (Resolves [\<lparr>ticker = ''ABC''\<rparr>]) (Resolves (OrderId ''b1''))
         (Resolves (OrderId ''s1''))))
     = [(''ABC'', ''maybe'', Num 1, Num 50, \<lparr>arbLive = True\<rparr>)]
   \<and> sellCalls (events [''KALSHI_BOT_SIDE'' \<mapsto> ''maybe'']
      (answering (Resolves [\<lparr>ticker = ''ABC''\<rparr>]) (Resolves (OrderId ''b1''))
         (Resolves (OrderId ''s1''))))
     = [(''ABC'', ''maybe'', Num 1, \<lparr>arbLive = True\<rparr>)]
   \<and> BOT_SIDE [''KALSHI_BOT_SIDE'' \<mapsto> []] = []"
  using
    C10_side_passed_unvalidated [of Map.empty "''maybe''"
      "answering (Resolves [\<lparr>ticker = ''ABC''\<rparr>]) (Resolves (OrderId ''b1''))
         (Resolves (OrderId ''s1''))"
      "\<lparr>ticker = ''ABC''\<rparr>" "[]" "''b1''"]
    C10_side_passed_unvalidated [of Map.empty "[]"
      "answering (Resolves [\<lparr>ticker = ''ABC''\<rparr>]) (Resolves (OrderId ''b1''))
         (Resolves (OrderId ''s1''))"
      "\<lparr>ticker = ''ABC''\<rparr>" "[]" "''b1''"]
  by (simp add: answering_simps default_config)

end
